theory Spec2Isabelle
  imports Complex_Main
begin

section \<open>Enumerations and errors\<close>

text \<open>
  \<^verbatim>\<open>IterationMode\<close> is the direction hint handed to the texture cache.
\<close>

datatype IterationMode = FORWARD | BACKWARD | PINGPONG

text \<open>
  \<^verbatim>\<open>FitMode\<close> is an \<^verbatim>\<open>enum class\<close> with the four enumerators the two switches
  of \<^verbatim>\<open>DukeMainWindow.cpp\<close> name. An object of a C++ enumeration type can hold any
  value of its underlying integer type, so the model has a fifth constructor:
  \<open>Unrecognized v\<close> stands for a stored value \<open>v\<close> that equals none of the four
  enumerators.
\<close>

datatype FitMode = ACTUAL | INNER | OUTER | FREE | Unrecognized int

text \<open>The only exception the file throws: \<^verbatim>\<open>std::runtime_error(msg)\<close>.\<close>

datatype error = RuntimeError string

section \<open>Fit mode cycling (\<^verbatim>\<open>setNextMode\<close>, \<^verbatim>\<open>getFitModeString\<close>)\<close>

text \<open>
  \<^verbatim>\<open>setNextMode\<close> updates its reference argument and returns a flag; the model
  returns the flag together with the new mode. Falling out of the switch reaches the
  \<^verbatim>\<open>throw\<close>.
\<close>

fun setNextMode :: "FitMode \<Rightarrow> error + (bool \<times> FitMode)" where
  "setNextMode FREE = Inr (True, INNER)"
| "setNextMode INNER = Inr (True, OUTER)"
| "setNextMode OUTER = Inr (False, ACTUAL)"
| "setNextMode ACTUAL = Inr (True, INNER)"
| "setNextMode (Unrecognized v) = Inl (RuntimeError ''unknown fitmode'')"

fun getFitModeString :: "FitMode \<Rightarrow> error + string" where
  "getFitModeString ACTUAL = Inr ''Actual pixel''"
| "getFitModeString INNER = Inr ''Fit inner frame''"
| "getFitModeString FREE = Inr ''No fit''"
| "getFitModeString OUTER = Inr ''Fit outer frame''"
| "getFitModeString (Unrecognized v) = Inl (RuntimeError ''unknown fitmode'')"

text \<open>
  The \<^verbatim>\<open>'f'\<close> branch of the character loop: advance the fit mode, request a zoom
  setup, show the name of the new mode. The result is the new fit mode, the new
  \<^verbatim>\<open>doSetupZoom\<close> flag and the displayed message; an exception of either callee
  leaves the loop.
\<close>

definition handleCharF :: "FitMode \<Rightarrow> error + (FitMode \<times> bool \<times> string)" where
  "handleCharF fitMode =
     (case setNextMode fitMode of
        Inl e \<Rightarrow> Inl e
      | Inr (_, fitMode') \<Rightarrow>
          (case getFitModeString fitMode' of
             Inl e \<Rightarrow> Inl e
           | Inr msg \<Rightarrow> Inr (fitMode', True, msg)))"

section \<open>The player\<close>

text \<open>
  Modelled from the spec: class \<^verbatim>\<open>Player\<close> (its \<^verbatim>\<open>load\<close>, \<^verbatim>\<open>setPlaybackSpeed\<close>,
  \<^verbatim>\<open>offsetPlaybackTime\<close>, \<^verbatim>\<open>cue\<close>, \<^verbatim>\<open>cueRelative\<close> and the three reads) is used by
  \<^verbatim>\<open>DukeMainWindow.cpp\<close> but defined elsewhere. The state is the playback clock
  (\<open>playbackTime\<close>, a rational \<^verbatim>\<open>Time\<close>), the signed speed, the frame duration and
  the bound timeline, of which cueing uses only the inclusive range
  \<open>(first, last)\<close> that \<^verbatim>\<open>getRange()\<close> returns.
\<close>

record Player =
  rangeFirst :: int
  rangeLast :: int
  frameDuration :: rat
  playbackTime :: rat
  playbackSpeed :: int

text \<open>
  Modelled from the spec: the reads \<^verbatim>\<open>getPlaybackTime\<close>, \<^verbatim>\<open>getPlaybackSpeed\<close> and
  \<^verbatim>\<open>getFrameDuration\<close> of \<^verbatim>\<open>Player\<close> are pure and return the stored values.
\<close>

definition getPlaybackTime :: "Player \<Rightarrow> rat" where
  "getPlaybackTime p = playbackTime p"

definition getPlaybackSpeed :: "Player \<Rightarrow> int" where
  "getPlaybackSpeed p = playbackSpeed p"

definition getFrameDuration :: "Player \<Rightarrow> rat" where
  "getFrameDuration p = frameDuration p"

text \<open>
  Modelled from the spec: \<^verbatim>\<open>Player::getCurrentFrame\<close> is the position of the clock in
  frames, the playback time divided by the frame duration. It is a \<^verbatim>\<open>Time\<close> as well:
  the loop calls \<^verbatim>\<open>round()\<close> on it to get the frame index.
\<close>

definition getCurrentFrame :: "Player \<Rightarrow> rat" where
  "getCurrentFrame p = playbackTime p / frameDuration p"

text \<open>
  Modelled from the spec: \<^verbatim>\<open>setPlaybackSpeed\<close> stores a signed integer without
  clamping its magnitude and leaves the clock alone.
\<close>

definition setPlaybackSpeed :: "int \<Rightarrow> Player \<Rightarrow> Player" where
  "setPlaybackSpeed speed p = p\<lparr>playbackSpeed := speed\<rparr>"

text \<open>
  Modelled from the spec: \<^verbatim>\<open>load\<close> binds the timeline and the frame duration and
  resets the clock to the start of the timeline.
\<close>

definition load :: "int \<times> int \<Rightarrow> rat \<Rightarrow> Player \<Rightarrow> Player" where
  "load rng fd p =
     p\<lparr>rangeFirst := fst rng, rangeLast := snd rng, frameDuration := fd,
       playbackTime := of_int (fst rng) * fd\<rparr>"

text \<open>
  Modelled from the spec: \<^verbatim>\<open>offsetPlaybackTime\<close> advances the clock by the elapsed
  time multiplied by the sign of the speed.
\<close>

definition offsetPlaybackTime :: "rat \<Rightarrow> Player \<Rightarrow> Player" where
  "offsetPlaybackTime elapsed p =
     p\<lparr>playbackTime := playbackTime p + elapsed * of_int (sgn (playbackSpeed p))\<rparr>"

text \<open>
  Modelled from the spec: the clamp of a frame to the inclusive range of the bound
  timeline.
\<close>

definition clampFrame :: "Player \<Rightarrow> int \<Rightarrow> int" where
  "clampFrame p frame = max (rangeFirst p) (min (rangeLast p) frame)"

text \<open>
  Modelled from the spec: \<^verbatim>\<open>Player::cue\<close> is the absolute seek to the clamped frame;
  it sets the clock to the time of that frame and has no error result.
\<close>

definition cue :: "int \<Rightarrow> Player \<Rightarrow> Player" where
  "cue frame p = p\<lparr>playbackTime := of_int (clampFrame p frame) * frameDuration p\<rparr>"

text \<open>
  Modelled from the spec: \<^verbatim>\<open>cueRelative(delta)\<close> is \<^verbatim>\<open>cue(currentFrame + delta)\<close>,
  the current frame taken as a frame index, that is rounded, as the driving loop
  does.
\<close>

definition cueRelative :: "int \<Rightarrow> Player \<Rightarrow> Player" where
  "cueRelative delta p = cue (round (getCurrentFrame p) + delta) p"

section \<open>The driving loop (\<^verbatim>\<open>DukeMainWindow::run\<close>)\<close>

subsection \<open>Preparing the texture cache\<close>

text \<open>
  The calls the loop makes on the texture cache are recorded as values. The mode is
  derived from the speed by the nested conditional of the loop body.
\<close>

datatype CacheCall = Prepare nat IterationMode

definition iterationModeOf :: "int \<Rightarrow> IterationMode" where
  "iterationModeOf speed =
     (if speed < 0 then BACKWARD else (if speed > 0 then FORWARD else PINGPONG))"

definition prepareCall :: "nat \<Rightarrow> Player \<Rightarrow> CacheCall" where
  "prepareCall frame p = Prepare frame (iterationModeOf (getPlaybackSpeed p))"

subsection \<open>Play and stop\<close>

text \<open>
  The lambda \<^verbatim>\<open>togglePlayStop\<close> returns whether the player is playing afterwards; the
  \<^verbatim>\<open>' '\<close> branch of the character loop displays that.
\<close>

definition togglePlayStop :: "Player \<Rightarrow> bool \<times> Player" where
  "togglePlayStop p =
     (let speed = (if getPlaybackSpeed p = 0 then 1 else 0)
      in (speed \<noteq> 0, setPlaybackSpeed speed p))"

definition handleCharSpace :: "Player \<Rightarrow> string \<times> Player" where
  "handleCharSpace p =
     (let (playing, p') = togglePlayStop p
      in (if playing then ''play'' else ''stop'', p'))"

subsection \<open>Rendering the tracks\<close>

text \<open>
  Streams, textures and overlays are pointers in the code; the model names them by
  number and writes a null pointer as \<open>None\<close>. A \<^verbatim>\<open>MediaFrameReference\<close> is the pair
  of a stream pointer and a frame of that stream.
\<close>

type_synonym stream = nat
type_synonym texture = nat
type_synonym overlay = nat
type_synonym MediaFrameReference = "stream option \<times> nat"

text \<open>
  Modelled from the spec: \<^verbatim>\<open>Clip\<close> and \<^verbatim>\<open>Track\<close> are declared outside
  \<^verbatim>\<open>DukeMainWindow.cpp\<close>. A clip covers the half-open frame range from \<open>clipStart\<close>
  to \<open>clipEnd\<close> and may carry an overlay; a track is a sequence of clips and a
  \<open>disabled\<close> flag.
\<close>

record Clip =
  clipStart :: nat
  clipEnd :: nat
  pOverlay :: "overlay option"

record Track =
  disabled :: bool
  clips :: "Clip list"

text \<open>
  Modelled from the spec: a clip holds the frames of its half-open range.
\<close>

definition inClip :: "nat \<Rightarrow> Clip \<Rightarrow> bool" where
  "inClip frame c = (clipStart c \<le> frame \<and> frame < clipEnd c)"

text \<open>
  Modelled from the spec: \<^verbatim>\<open>Track::clipContaining\<close> is not in
  \<^verbatim>\<open>DukeMainWindow.cpp\<close>. It searches the clips of the track for the one whose range
  holds the frame; \<open>None\<close> is the sentinel \<^verbatim>\<open>track.end()\<close>.
\<close>

definition clipContaining :: "Track \<Rightarrow> nat \<Rightarrow> Clip option" where
  "clipContaining track frame = find (inClip frame) (clips track)"

text \<open>
  What the loop draws is recorded as a list of calls, in order. Overlays read the
  context, so their calls carry the value of \<^verbatim>\<open>m_Context.pCurrentImage\<close>.
\<close>

datatype DrawCall =
    SetupZoom
  | RenderWithBoundTexture texture
  | DrawText string int int int int
  | RenderOverlay overlay "texture option"
  | RenderMetadata "texture option"

text \<open>
  The body of the loop over the tracks. \<^verbatim>\<open>Track::getMediaFrameReferenceAt\<close> and
  \<^verbatim>\<open>TextureCache::getLoadedTexture\<close> are defined elsewhere and are parameters here:
  \<open>mfrAt\<close> resolves a frame of a track, \<open>getLoadedTexture\<close> answers with the resident
  texture or with \<open>None\<close> (a null pointer) on a miss.
\<close>

definition renderTrack ::
  "(Track \<Rightarrow> nat \<Rightarrow> MediaFrameReference) \<Rightarrow> (MediaFrameReference \<Rightarrow> texture option) \<Rightarrow>
   bool \<Rightarrow> nat \<Rightarrow> Track \<Rightarrow> DrawCall list" where
  "renderTrack mfrAt getLoadedTexture showMetadataOverlay frame track =
     (if disabled track then []
      else case clipContaining track frame of
        None \<Rightarrow> []
      | Some clip \<Rightarrow>
          (let mfr = mfrAt track frame;
               pCurrentImage = (case fst mfr of None \<Rightarrow> None | Some s \<Rightarrow> getLoadedTexture mfr);
               image = (case fst mfr of
                          None \<Rightarrow> []
                        | Some s \<Rightarrow>
                            (case getLoadedTexture mfr of
                               Some t \<Rightarrow> [SetupZoom, RenderWithBoundTexture t]
                             | None \<Rightarrow> [DrawText ''missing frame'' 100 100 1 3]))
           in image
              @ (case pOverlay clip of Some ov \<Rightarrow> [RenderOverlay ov pCurrentImage] | None \<Rightarrow> [])
              @ (if showMetadataOverlay then [RenderMetadata pCurrentImage] else [])))"

definition renderTracks ::
  "(Track \<Rightarrow> nat \<Rightarrow> MediaFrameReference) \<Rightarrow> (MediaFrameReference \<Rightarrow> texture option) \<Rightarrow>
   bool \<Rightarrow> nat \<Rightarrow> Track list \<Rightarrow> DrawCall list" where
  "renderTracks mfrAt getLoadedTexture showMetadataOverlay frame timeline =
     concat (map (renderTrack mfrAt getLoadedTexture showMetadataOverlay frame) timeline)"

subsection \<open>Updating the time\<close>

text \<open>
  After the buffer swap the loop advances the player by the frame duration when the
  frame rate is unlimited and by the measured microseconds otherwise; a \<^verbatim>\<open>Time\<close> is
  a rational number of seconds.
\<close>

definition updateTime :: "bool \<Rightarrow> int \<Rightarrow> Player \<Rightarrow> Player" where
  "updateTime unlimitedFPS elapsedMicroSeconds p =
     (let offset = (if unlimitedFPS then getFrameDuration p
                    else of_int elapsedMicroSeconds / 1000000)
      in offsetPlaybackTime offset p)"

subsection \<open>Keys\<close>

text \<open>
  The four keys the key loop handles; every other key code does nothing.
\<close>

datatype Key = KEY_HOME | KEY_END | KEY_LEFT | KEY_RIGHT | KEY_OTHER int

fun handleKey :: "bool \<Rightarrow> Key \<Rightarrow> Player \<Rightarrow> Player" where
  "handleKey ctrlModifier KEY_HOME p = cue (rangeFirst p) p"
| "handleKey ctrlModifier KEY_END p = cue (rangeLast p) p"
| "handleKey ctrlModifier KEY_LEFT p = cueRelative (if ctrlModifier then - 25 else - 1) p"
| "handleKey ctrlModifier KEY_RIGHT p = cueRelative (if ctrlModifier then 25 else 1) p"
| "handleKey ctrlModifier (KEY_OTHER k) p = p"

definition handleKeys :: "bool \<Rightarrow> Key list \<Rightarrow> Player \<Rightarrow> Player" where
  "handleKeys ctrlModifier keyStrokes p = fold (handleKey ctrlModifier) keyStrokes p"

subsection \<open>Dumping the cache state\<close>

text \<open>
  The loop keeps a \<open>milestone\<close>, first the time at which \<^verbatim>\<open>run\<close> started. At the end
  of an iteration it reads the clock and, when the difference to the milestone is
  more than 100 milliseconds, calls \<^verbatim>\<open>dumpState\<close> and moves the milestone to the time
  just read. Times are integer ticks of \<^verbatim>\<open>duke_clock\<close>, which is declared elsewhere:
  \<open>ticksPerMs\<close> is the number of its ticks in a millisecond.
\<close>

definition dumpDue :: "int \<Rightarrow> int \<Rightarrow> int \<Rightarrow> bool" where
  "dumpDue ticksPerMs milestone now = (now - milestone > 100 * ticksPerMs)"

text \<open>
  The iterations of the loop, given the clock reading of each: \<open>dumpCalls\<close> tells for
  each iteration whether it called \<^verbatim>\<open>dumpState\<close>, \<open>dumpTimes\<close> lists the clock
  readings of the iterations that did.
\<close>

fun dumpCalls :: "int \<Rightarrow> int \<Rightarrow> int list \<Rightarrow> bool list" where
  "dumpCalls ticksPerMs milestone [] = []"
| "dumpCalls ticksPerMs milestone (now # nows) =
     (if dumpDue ticksPerMs milestone now
      then True # dumpCalls ticksPerMs now nows
      else False # dumpCalls ticksPerMs milestone nows)"

fun dumpTimes :: "int \<Rightarrow> int \<Rightarrow> int list \<Rightarrow> int list" where
  "dumpTimes ticksPerMs milestone [] = []"
| "dumpTimes ticksPerMs milestone (now # nows) =
     (if dumpDue ticksPerMs milestone now
      then now # dumpTimes ticksPerMs now nows
      else dumpTimes ticksPerMs milestone nows)"

section \<open>Direction of the prefetch\<close>

text \<open>
  C1. Whatever speed the loop reads from the player, the mode it passes to
  \<^verbatim>\<open>TextureCache::prepare\<close> is FORWARD for a positive speed, BACKWARD for a negative
  speed and PINGPONG for speed zero.
\<close>

theorem prepare_mode_by_speed_sign:
  "(0 < playbackSpeed p \<longrightarrow> prepareCall frame p = Prepare frame FORWARD) \<and>
   (playbackSpeed p < 0 \<longrightarrow> prepareCall frame p = Prepare frame BACKWARD) \<and>
   (playbackSpeed p = 0 \<longrightarrow> prepareCall frame p = Prepare frame PINGPONG)"
  by (simp add: prepareCall_def iterationModeOf_def getPlaybackSpeed_def)

theorem prepare_mode_by_speed_sign_witness:
  "prepareCall 7 \<lparr>rangeFirst = 0, rangeLast = 100, frameDuration = 1 / 24,
       playbackTime = 0, playbackSpeed = 3\<rparr> = Prepare 7 FORWARD \<and>
   prepareCall 7 \<lparr>rangeFirst = 0, rangeLast = 100, frameDuration = 1 / 24,
       playbackTime = 0, playbackSpeed = - 2\<rparr> = Prepare 7 BACKWARD \<and>
   prepareCall 7 \<lparr>rangeFirst = 0, rangeLast = 100, frameDuration = 1 / 24,
       playbackTime = 0, playbackSpeed = 0\<rparr> = Prepare 7 PINGPONG"
  using
    prepare_mode_by_speed_sign [of "\<lparr>rangeFirst = 0, rangeLast = 100, frameDuration = 1 / 24,
       playbackTime = 0, playbackSpeed = 3\<rparr>" 7]
    prepare_mode_by_speed_sign [of "\<lparr>rangeFirst = 0, rangeLast = 100, frameDuration = 1 / 24,
       playbackTime = 0, playbackSpeed = - 2\<rparr>" 7]
    prepare_mode_by_speed_sign [of "\<lparr>rangeFirst = 0, rangeLast = 100, frameDuration = 1 / 24,
       playbackTime = 0, playbackSpeed = 0\<rparr>" 7]
  by simp


section \<open>Cueing\<close>

lemma clampFrame_playbackTime_update [simp]:
  "clampFrame (p\<lparr>playbackTime := t\<rparr>) f = clampFrame p f"
  by (simp add: clampFrame_def)



text \<open>After \<^verbatim>\<open>load\<close> the player stands on the first frame of the timeline.\<close>

lemma getCurrentFrame_load:
  "fd \<noteq> 0 \<Longrightarrow> getCurrentFrame (load (a, b) fd p) = of_int a"
  by (simp add: getCurrentFrame_def load_def)

text \<open>After a cue the player stands on a frame of the range, when the range has one.\<close>

lemma getCurrentFrame_cue:
  assumes "frameDuration p \<noteq> 0" and "rangeFirst p \<le> rangeLast p"
  shows "getCurrentFrame (cue f p) = of_int (clampFrame p f) \<and>
         rangeFirst p \<le> clampFrame p f \<and> clampFrame p f \<le> rangeLast p"
  using assms by (simp add: getCurrentFrame_def cue_def clampFrame_def)

text \<open>
  C2. For every frame argument, negative and past-the-end ones included, \<^verbatim>\<open>cue\<close>
  leaves the current frame at the argument clamped to the inclusive range of the
  timeline: at the first frame for an argument below the range, at the last frame
  for one above it, at the argument itself inside. \<^verbatim>\<open>cue\<close> has no error result. In
  the range from 0 to 100, \<^verbatim>\<open>cue(150)\<close> gives frame 100 and \<^verbatim>\<open>cue(-5)\<close> gives frame 0.
  The Home and End keys of the loop cue the first and the last frame. The frame
  duration is taken to be nonzero.
\<close>

theorem cue_clamps_to_range:
  assumes "frameDuration p \<noteq> 0"
  shows "getCurrentFrame (cue f p) = of_int (max (rangeFirst p) (min (rangeLast p) f)) \<and>
         (rangeFirst p \<le> rangeLast p \<longrightarrow>
            of_int (rangeFirst p) \<le> getCurrentFrame (cue f p) \<and>
            getCurrentFrame (cue f p) \<le> of_int (rangeLast p) \<and>
            (f < rangeFirst p \<longrightarrow> getCurrentFrame (cue f p) = of_int (rangeFirst p)) \<and>
            (rangeLast p < f \<longrightarrow> getCurrentFrame (cue f p) = of_int (rangeLast p)) \<and>
            (rangeFirst p \<le> f \<and> f \<le> rangeLast p \<longrightarrow> getCurrentFrame (cue f p) = of_int f) \<and>
            getCurrentFrame (handleKey ctrlModifier KEY_HOME p) = of_int (rangeFirst p) \<and>
            getCurrentFrame (handleKey ctrlModifier KEY_END p) = of_int (rangeLast p)) \<and>
         (rangeFirst p = 0 \<and> rangeLast p = 100 \<longrightarrow>
            getCurrentFrame (cue 150 p) = 100 \<and> getCurrentFrame (cue (- 5) p) = 0)"
  using assms by (simp add: getCurrentFrame_def cue_def clampFrame_def)

theorem cue_clamps_to_range_witness:
  "frameDuration \<lparr>rangeFirst = 0, rangeLast = 100, frameDuration = 1 / 24,
       playbackTime = 0, playbackSpeed = 1\<rparr> \<noteq> 0 \<and>
   getCurrentFrame (cue 150 \<lparr>rangeFirst = 0, rangeLast = 100, frameDuration = 1 / 24,
       playbackTime = 0, playbackSpeed = 1\<rparr>) = 100 \<and>
   getCurrentFrame (cue (- 5) \<lparr>rangeFirst = 0, rangeLast = 100, frameDuration = 1 / 24,
       playbackTime = 0, playbackSpeed = 1\<rparr>) = 0 \<and>
   getCurrentFrame (cue 42 \<lparr>rangeFirst = 0, rangeLast = 100, frameDuration = 1 / 24,
       playbackTime = 0, playbackSpeed = 1\<rparr>) = 42"
  using
    cue_clamps_to_range [of "\<lparr>rangeFirst = 0, rangeLast = 100, frameDuration = 1 / 24,
       playbackTime = 0, playbackSpeed = 1\<rparr>" 150]
    cue_clamps_to_range [of "\<lparr>rangeFirst = 0, rangeLast = 100, frameDuration = 1 / 24,
       playbackTime = 0, playbackSpeed = 1\<rparr>" "- 5"]
    cue_clamps_to_range [of "\<lparr>rangeFirst = 0, rangeLast = 100, frameDuration = 1 / 24,
       playbackTime = 0, playbackSpeed = 1\<rparr>" 42]
  by simp

text \<open>
  C8. For frames \<open>f1\<close> and \<open>f2\<close> inside the range of the timeline, \<^verbatim>\<open>cue(f1)\<close> followed
  by \<^verbatim>\<open>cue(f2)\<close> leaves the current frame at \<open>f2\<close>; the player is in the state that
  \<^verbatim>\<open>cue(f2)\<close> alone gives, so the earlier cue has no influence. The frame duration is
  taken to be nonzero.
\<close>

theorem cue_twice:
  assumes "frameDuration p \<noteq> 0"
    and "rangeFirst p \<le> f1" and "f1 \<le> rangeLast p"
    and "rangeFirst p \<le> f2" and "f2 \<le> rangeLast p"
  shows "getCurrentFrame (cue f2 (cue f1 p)) = of_int f2 \<and> cue f2 (cue f1 p) = cue f2 p"
  using assms by (simp add: getCurrentFrame_def cue_def clampFrame_def)

theorem cue_twice_witness:
  "getCurrentFrame (cue 40 (cue 90 \<lparr>rangeFirst = 0, rangeLast = 100, frameDuration = 1 / 24,
       playbackTime = 0, playbackSpeed = 1\<rparr>)) = 40"
  using cue_twice [of "\<lparr>rangeFirst = 0, rangeLast = 100, frameDuration = 1 / 24,
       playbackTime = 0, playbackSpeed = 1\<rparr>" 90 40]
  by (simp add: getCurrentFrame_def cue_def clampFrame_def)

subsection \<open>Relative cueing\<close>









section \<open>The clock\<close>

text \<open>
  C4. For every elapsed time handed to \<^verbatim>\<open>offsetPlaybackTime\<close>: at speed 0 the player
  is unchanged, so neither the playback time nor the current frame moves, and the
  time update of the loop leaves the player unchanged as well; at any other speed
  the playback time advances by the elapsed time multiplied by the sign of the
  speed, that is forwards for a positive and backwards for a negative speed.
\<close>

theorem offsetPlaybackTime_by_sign:
  "(getPlaybackSpeed p = 0 \<longrightarrow>
      offsetPlaybackTime elapsed p = p \<and>
      getPlaybackTime (offsetPlaybackTime elapsed p) = getPlaybackTime p \<and>
      getCurrentFrame (offsetPlaybackTime elapsed p) = getCurrentFrame p \<and>
      updateTime unlimitedFPS elapsedMicroSeconds p = p) \<and>
   (getPlaybackSpeed p \<noteq> 0 \<longrightarrow>
      getPlaybackTime (offsetPlaybackTime elapsed p) =
        getPlaybackTime p + elapsed * of_int (sgn (getPlaybackSpeed p))) \<and>
   (0 < getPlaybackSpeed p \<longrightarrow>
      getPlaybackTime (offsetPlaybackTime elapsed p) = getPlaybackTime p + elapsed) \<and>
   (getPlaybackSpeed p < 0 \<longrightarrow>
      getPlaybackTime (offsetPlaybackTime elapsed p) = getPlaybackTime p - elapsed)"
  by (simp add: offsetPlaybackTime_def getPlaybackSpeed_def getPlaybackTime_def
      getCurrentFrame_def updateTime_def)

theorem offsetPlaybackTime_by_sign_witness:
  "offsetPlaybackTime (7 / 2) \<lparr>rangeFirst = 0, rangeLast = 100, frameDuration = 1 / 24,
       playbackTime = 3, playbackSpeed = 0\<rparr> =
     \<lparr>rangeFirst = 0, rangeLast = 100, frameDuration = 1 / 24,
       playbackTime = 3, playbackSpeed = 0\<rparr> \<and>
   getPlaybackTime (offsetPlaybackTime (7 / 2) \<lparr>rangeFirst = 0, rangeLast = 100, frameDuration = 1 / 24,
       playbackTime = 3, playbackSpeed = 4\<rparr>) = 13 / 2 \<and>
   getPlaybackTime (offsetPlaybackTime (7 / 2) \<lparr>rangeFirst = 0, rangeLast = 100, frameDuration = 1 / 24,
       playbackTime = 3, playbackSpeed = - 4\<rparr>) = - 1 / 2"
  using
    offsetPlaybackTime_by_sign [of "\<lparr>rangeFirst = 0, rangeLast = 100, frameDuration = 1 / 24,
       playbackTime = 3, playbackSpeed = 0\<rparr>" "7 / 2"]
    offsetPlaybackTime_by_sign [of "\<lparr>rangeFirst = 0, rangeLast = 100, frameDuration = 1 / 24,
       playbackTime = 3, playbackSpeed = 4\<rparr>" "7 / 2"]
    offsetPlaybackTime_by_sign [of "\<lparr>rangeFirst = 0, rangeLast = 100, frameDuration = 1 / 24,
       playbackTime = 3, playbackSpeed = - 4\<rparr>" "7 / 2"]
  by (simp add: getPlaybackSpeed_def getPlaybackTime_def)

section \<open>Rendering\<close>

lemma clipContaining_None_iff:
  "clipContaining track frame = None \<longleftrightarrow> (\<forall>c \<in> set (clips track). \<not> inClip frame c)"
  by (auto simp: clipContaining_def find_None_iff)

text \<open>
  C3. When the track has a clip at the frame, the frame resolves to a stream and
  \<^verbatim>\<open>getLoadedTexture\<close> answers with a miss, the loop draws the text
  \<^verbatim>\<open>missing frame\<close> in place of the image, binds and renders no texture, and goes on
  with the overlays of the track. Rendering has no error result: a miss is an
  ordinary branch of the loop.
\<close>

theorem miss_renders_placeholder:
  assumes "\<not> disabled track"
    and "clipContaining track frame = Some clip"
    and "fst (mfrAt track frame) = Some s"
    and "getLoadedTexture (mfrAt track frame) = None"
  shows "renderTrack mfrAt getLoadedTexture showMetadataOverlay frame track =
           DrawText ''missing frame'' 100 100 1 3
           # (case pOverlay clip of Some ov \<Rightarrow> [RenderOverlay ov None] | None \<Rightarrow> [])
           @ (if showMetadataOverlay then [RenderMetadata None] else []) \<and>
         (\<forall>t. RenderWithBoundTexture t
            \<notin> set (renderTrack mfrAt getLoadedTexture showMetadataOverlay frame track)) \<and>
         (track \<in> set timeline \<longrightarrow>
            DrawText ''missing frame'' 100 100 1 3
              \<in> set (renderTracks mfrAt getLoadedTexture showMetadataOverlay frame timeline))"
proof -
  have eq: "renderTrack mfrAt getLoadedTexture showMetadataOverlay frame track =
           DrawText ''missing frame'' 100 100 1 3
           # (case pOverlay clip of Some ov \<Rightarrow> [RenderOverlay ov None] | None \<Rightarrow> [])
           @ (if showMetadataOverlay then [RenderMetadata None] else [])"
    using assms by (simp add: renderTrack_def)
  have no: "\<forall>t. RenderWithBoundTexture t
            \<notin> set (renderTrack mfrAt getLoadedTexture showMetadataOverlay frame track)"
    unfolding eq by (simp split: option.split)
  have "DrawText ''missing frame'' 100 100 1 3
          \<in> set (renderTrack mfrAt getLoadedTexture showMetadataOverlay frame track)"
    unfolding eq by simp
  then have "track \<in> set timeline \<longrightarrow>
            DrawText ''missing frame'' 100 100 1 3
              \<in> set (renderTracks mfrAt getLoadedTexture showMetadataOverlay frame timeline)"
    by (auto simp: renderTracks_def)
  with eq no show ?thesis by blast
qed

theorem miss_renders_placeholder_witness:
  "renderTrack (\<lambda>t f. (Some 1, f - 20)) (\<lambda>m. None) True 25 \<lparr>disabled = False, clips =
       [\<lparr>clipStart = 0, clipEnd = 10, pOverlay = None\<rparr>,
        \<lparr>clipStart = 20, clipEnd = 30, pOverlay = Some 4\<rparr>]\<rparr> =
     [DrawText ''missing frame'' 100 100 1 3, RenderOverlay 4 None, RenderMetadata None] \<and>
   DrawText ''missing frame'' 100 100 1 3
     \<in> set (renderTracks (\<lambda>t f. (Some 1, f - 20)) (\<lambda>m. None) True 25 [\<lparr>disabled = False, clips =
       [\<lparr>clipStart = 0, clipEnd = 10, pOverlay = None\<rparr>,
        \<lparr>clipStart = 20, clipEnd = 30, pOverlay = Some 4\<rparr>]\<rparr>])"
  using miss_renders_placeholder [of "\<lparr>disabled = False, clips =
       [\<lparr>clipStart = 0, clipEnd = 10, pOverlay = None\<rparr>,
        \<lparr>clipStart = 20, clipEnd = 30, pOverlay = Some 4\<rparr>]\<rparr>" 25
       "\<lparr>clipStart = 20, clipEnd = 30, pOverlay = Some 4\<rparr>"
       "\<lambda>t f. (Some 1, f - 20)" 1 "\<lambda>m. None" True "[\<lparr>disabled = False, clips =
       [\<lparr>clipStart = 0, clipEnd = 10, pOverlay = None\<rparr>,
        \<lparr>clipStart = 20, clipEnd = 30, pOverlay = Some 4\<rparr>]\<rparr>]"]
  by (simp add: clipContaining_def inClip_def)

text \<open>
  C9. For a frame in a gap of a track, that is a frame no clip of the track covers,
  \<^verbatim>\<open>clipContaining\<close> returns the sentinel and the loop draws nothing for the track:
  its iteration is skipped, with no error.
\<close>

theorem gap_renders_nothing:
  assumes "\<forall>c \<in> set (clips track). \<not> (clipStart c \<le> frame \<and> frame < clipEnd c)"
  shows "clipContaining track frame = None \<and>
         renderTrack mfrAt getLoadedTexture showMetadataOverlay frame track = [] \<and>
         renderTracks mfrAt getLoadedTexture showMetadataOverlay frame [track] = []"
proof -
  have "clipContaining track frame = None"
    using assms by (simp add: clipContaining_None_iff inClip_def)
  then show ?thesis
    by (simp add: renderTrack_def renderTracks_def)
qed

theorem gap_renders_nothing_witness:
  "clipContaining \<lparr>disabled = False, clips =
       [\<lparr>clipStart = 0, clipEnd = 10, pOverlay = None\<rparr>,
        \<lparr>clipStart = 20, clipEnd = 30, pOverlay = Some 4\<rparr>]\<rparr> 15 = None \<and>
   renderTrack (\<lambda>t f. (Some 1, f)) (\<lambda>m. Some 9) True 15 \<lparr>disabled = False, clips =
       [\<lparr>clipStart = 0, clipEnd = 10, pOverlay = None\<rparr>,
        \<lparr>clipStart = 20, clipEnd = 30, pOverlay = Some 4\<rparr>]\<rparr> = []"
  using gap_renders_nothing [of "\<lparr>disabled = False, clips =
       [\<lparr>clipStart = 0, clipEnd = 10, pOverlay = None\<rparr>,
        \<lparr>clipStart = 20, clipEnd = 30, pOverlay = Some 4\<rparr>]\<rparr>" 15
       "\<lambda>t f. (Some 1, f)" "\<lambda>m. Some 9" True]
  by simp

section \<open>Fit modes\<close>

text \<open>
  C6. A fit mode that is none of the four enumerators is never replaced by a
  default: \<^verbatim>\<open>setNextMode\<close> and \<^verbatim>\<open>getFitModeString\<close> throw on it, and so does the
  \<^verbatim>\<open>'f'\<close> key that calls them. On each of the four enumerators both functions return
  normally, \<^verbatim>\<open>setNextMode\<close> with an enumerator again, so the throw is reached for
  unrecognized values only.
\<close>

theorem unknown_fitmode_throws:
  "setNextMode (Unrecognized v) = Inl (RuntimeError ''unknown fitmode'') \<and>
   getFitModeString (Unrecognized v) = Inl (RuntimeError ''unknown fitmode'') \<and>
   handleCharF (Unrecognized v) = Inl (RuntimeError ''unknown fitmode'') \<and>
   (mode \<in> {FREE, INNER, OUTER, ACTUAL} \<longrightarrow>
      (\<exists>b mode'. setNextMode mode = Inr (b, mode') \<and> mode' \<in> {FREE, INNER, OUTER, ACTUAL}) \<and>
      (\<exists>str. getFitModeString mode = Inr str) \<and>
      (\<exists>r. handleCharF mode = Inr r)) \<and>
   (isl (setNextMode mode) \<longleftrightarrow> mode \<notin> {FREE, INNER, OUTER, ACTUAL}) \<and>
   (isl (getFitModeString mode) \<longleftrightarrow> mode \<notin> {FREE, INNER, OUTER, ACTUAL})"
  by (cases mode) (auto simp: handleCharF_def)

theorem unknown_fitmode_throws_witness:
  "setNextMode OUTER = Inr (False, ACTUAL) \<and> getFitModeString OUTER = Inr ''Fit outer frame'' \<and>
   handleCharF OUTER = Inr (ACTUAL, True, ''Actual pixel'') \<and>
   setNextMode (Unrecognized 7) = Inl (RuntimeError ''unknown fitmode'')"
  using unknown_fitmode_throws [of 7 OUTER]
  by (simp add: handleCharF_def)

section \<open>Play and stop\<close>

text \<open>
  C10. The space bar sets the speed to 1 when it is 0 and to 0 when it is not, and
  reports playing exactly when the new speed is not 0 (the message is \<^verbatim>\<open>play\<close> then,
  \<^verbatim>\<open>stop\<close> otherwise). Stopping and playing again therefore ends at speed 1
  whatever the speed was: speed 5 becomes 0 and then 1, not 5.
\<close>

theorem togglePlayStop_speed:
  "(getPlaybackSpeed p = 0 \<longrightarrow> getPlaybackSpeed (snd (togglePlayStop p)) = 1) \<and>
   (getPlaybackSpeed p \<noteq> 0 \<longrightarrow> getPlaybackSpeed (snd (togglePlayStop p)) = 0) \<and>
   (fst (togglePlayStop p) \<longleftrightarrow> getPlaybackSpeed (snd (togglePlayStop p)) \<noteq> 0) \<and>
   (fst (handleCharSpace p) =
      (if getPlaybackSpeed (snd (handleCharSpace p)) \<noteq> 0 then ''play'' else ''stop'')) \<and>
   (getPlaybackSpeed p \<noteq> 0 \<longrightarrow>
      getPlaybackSpeed (snd (togglePlayStop (snd (togglePlayStop p)))) = 1) \<and>
   (getPlaybackSpeed p = 5 \<longrightarrow>
      getPlaybackSpeed (snd (togglePlayStop p)) = 0 \<and>
      getPlaybackSpeed (snd (togglePlayStop (snd (togglePlayStop p)))) = 1 \<and>
      getPlaybackSpeed (snd (togglePlayStop (snd (togglePlayStop p)))) \<noteq> getPlaybackSpeed p)"
  by (simp add: togglePlayStop_def handleCharSpace_def getPlaybackSpeed_def setPlaybackSpeed_def)

theorem togglePlayStop_speed_witness:
  "getPlaybackSpeed (snd (togglePlayStop \<lparr>rangeFirst = 0, rangeLast = 100, frameDuration = 1 / 24,
       playbackTime = 3, playbackSpeed = 5\<rparr>)) = 0 \<and>
   getPlaybackSpeed (snd (togglePlayStop (snd (togglePlayStop \<lparr>rangeFirst = 0, rangeLast = 100, frameDuration = 1 / 24,
       playbackTime = 3, playbackSpeed = 5\<rparr>)))) = 1 \<and>
   getPlaybackSpeed (snd (togglePlayStop \<lparr>rangeFirst = 0, rangeLast = 100, frameDuration = 1 / 24,
       playbackTime = 3, playbackSpeed = 0\<rparr>)) = 1"
  using
    togglePlayStop_speed [of "\<lparr>rangeFirst = 0, rangeLast = 100, frameDuration = 1 / 24,
       playbackTime = 3, playbackSpeed = 5\<rparr>"]
    togglePlayStop_speed [of "\<lparr>rangeFirst = 0, rangeLast = 100, frameDuration = 1 / 24,
       playbackTime = 3, playbackSpeed = 0\<rparr>"]
  by (simp add: getPlaybackSpeed_def)

section \<open>Throttling of the cache dump\<close>

lemma dumpTimes_spaced:
  "successively (\<lambda>a b. 100 * ticksPerMs < b - a)
     (milestone # dumpTimes ticksPerMs milestone nows)"
proof (induction nows arbitrary: milestone)
  case Nil
  show ?case by simp
next
  case (Cons now nows)
  show ?case
  proof (cases "dumpDue ticksPerMs milestone now")
    case True
    with Cons.IH [of now] show ?thesis by (simp add: dumpDue_def)
  next
    case False
    with Cons.IH [of milestone] show ?thesis by simp
  qed
qed

lemma dumpCalls_all_iff:
  "dumpCalls ticksPerMs milestone nows = replicate (length nows) True \<longleftrightarrow>
   successively (\<lambda>a b. 100 * ticksPerMs < b - a) (milestone # nows)"
  by (induction nows arbitrary: milestone) (simp_all add: dumpDue_def)

text \<open>
  C5 says that \<^verbatim>\<open>dumpState\<close> is never invoked on every iteration. With a clock in
  microseconds and iterations that end 150 ms apart, each of the three iterations
  calls it.
\<close>

theorem dump_every_iteration_counterexample:
  "dumpCalls 1000 0 [150000, 300000, 450000] = [True, True, True]"
  by (simp add: dumpDue_def)

text \<open>
  C5, amended. An iteration calls \<^verbatim>\<open>dumpState\<close> exactly when its clock reading is more
  than 100 ms after the milestone, which is the start of \<^verbatim>\<open>run\<close> at first and the
  reading of the last iteration that called \<^verbatim>\<open>dumpState\<close> afterwards. The readings
  of two successive calls are therefore more than 100 ms apart, the first more than
  100 ms after the start; an iteration that ends within 100 ms of the milestone does
  not call it; and every iteration calls it exactly when every iteration ends more
  than 100 ms after the one before.
\<close>

theorem dumpState_throttled:
  "(hd (dumpCalls ticksPerMs milestone (now # nows)) \<longleftrightarrow> 100 * ticksPerMs < now - milestone) \<and>
   successively (\<lambda>a b. 100 * ticksPerMs < b - a)
     (milestone # dumpTimes ticksPerMs milestone nows) \<and>
   (dumpCalls ticksPerMs milestone nows = replicate (length nows) True \<longleftrightarrow>
      successively (\<lambda>a b. 100 * ticksPerMs < b - a) (milestone # nows)) \<and>
   (now - milestone \<le> 100 * ticksPerMs \<longrightarrow>
      dumpCalls ticksPerMs milestone (now # nows) = False # dumpCalls ticksPerMs milestone nows)"
  by (simp add: dumpTimes_spaced dumpCalls_all_iff) (simp add: dumpDue_def)

theorem dumpState_throttled_witness:
  "dumpCalls 1 5 [21, 37, 105, 106, 122, 207, 223] =
     [False, False, False, True, False, True, False] \<and>
   dumpTimes 1 5 [21, 37, 105, 106, 122, 207, 223] = [106, 207]"
  using dumpState_throttled [of 1 5 21 "[37, 105, 106, 122, 207, 223]"]
  by (simp add: dumpDue_def)

end
